theory Spec2Isabelle
  imports Main "HOL-Library.Word"
begin

unbundle bit_operations_syntax

section \<open>Values held in a Go interface\<close>

text \<open>
  The metrics of \<^verbatim>\<open>metrics.go\<close> store their value in a field of type
  \<^verbatim>\<open>interface{}\<close>. The embedding makes the dynamic type a constructor. The
  platform is a 64-bit one: \<^verbatim>\<open>int\<close> and \<^verbatim>\<open>uint\<close> are 64 bits wide. A
  floating-point number is its IEEE 754 bit pattern. \<open>VNil\<close> is the nil interface; it
  stands for every value outside the nine kinds of the type switch in
  \<^verbatim>\<open>IsCompatible\<close>.
\<close>

datatype val =
    VInt "64 word"
  | VInt32 "32 word"
  | VInt64 "64 word"
  | VUint "64 word"
  | VUint32 "32 word"
  | VUint64 "64 word"
  | VFloat32 "32 word"
  | VFloat64 "64 word"
  | VString string
  | VNil

subsection \<open>Floating point on bit patterns\<close>

text \<open>
  Comparison of two float64 values as Go's \<^verbatim>\<open><=\<close> and \<^verbatim>\<open>==\<close> decide it: a NaN
  compares false with everything, the two zeros are equal. \<open>f64_key\<close> maps the sign and
  magnitude of a bit pattern to an integer that is ordered as the numbers are.
\<close>

definition f64_isNaN :: "64 word \<Rightarrow> bool" where
  "f64_isNaN x = (0x7FF0000000000000 < (x AND 0x7FFFFFFFFFFFFFFF))"

definition f64_key :: "64 word \<Rightarrow> int" where
  "f64_key x = (if bit x 63 then - uint (x AND 0x7FFFFFFFFFFFFFFF) else uint (x AND 0x7FFFFFFFFFFFFFFF))"

definition f64_le :: "64 word \<Rightarrow> 64 word \<Rightarrow> bool" where
  "f64_le x y = (\<not> f64_isNaN x \<and> \<not> f64_isNaN y \<and> f64_key x \<le> f64_key y)"

definition f64_eq :: "64 word \<Rightarrow> 64 word \<Rightarrow> bool" where
  "f64_eq x y = (\<not> f64_isNaN x \<and> \<not> f64_isNaN y \<and> f64_key x = f64_key y)"

definition f64_neg :: "64 word \<Rightarrow> 64 word" where
  "f64_neg x = x XOR 0x8000000000000000"

definition f32_isNaN :: "32 word \<Rightarrow> bool" where
  "f32_isNaN x = (0x7F800000 < (x AND 0x7FFFFFFF))"

definition f32_key :: "32 word \<Rightarrow> int" where
  "f32_key x = (if bit x 31 then - uint (x AND 0x7FFFFFFF) else uint (x AND 0x7FFFFFFF))"

definition f32_eq :: "32 word \<Rightarrow> 32 word \<Rightarrow> bool" where
  "f32_eq x y = (\<not> f32_isNaN x \<and> \<not> f32_isNaN y \<and> f32_key x = f32_key y)"

text \<open>\<^verbatim>\<open>math.MaxFloat32\<close> as a float64: \<open>(2 - 2^-23) * 2^127\<close>.\<close>

definition MaxFloat32 :: "64 word" where
  "MaxFloat32 = 0x47EFFFFFE0000000"

text \<open>
  The conversion \<^verbatim>\<open>float32(x)\<close> of a float64: rounding to the nearest float32, ties
  to even, overflow to infinity, gradual underflow. \<open>round_shift m k\<close> is \<open>m / 2^k\<close>
  rounded that way. A NaN keeps its sign and the top bits of its payload and becomes
  quiet.
\<close>

definition round_shift :: "nat \<Rightarrow> nat \<Rightarrow> nat" where
  "round_shift m k =
     (let q = m div 2 ^ k; r = m mod 2 ^ k; h = 2 ^ (k - 1)
      in if h < r \<or> (r = h \<and> odd q) then q + 1 else q)"

definition float32_of_float64 :: "64 word \<Rightarrow> 32 word" where
  "float32_of_float64 x =
     (let sign = (if bit x 63 then 0x80000000 else 0) :: 32 word;
          e = unat (take_bit 11 (drop_bit 52 x));
          f = unat (take_bit 52 x)
      in if e = 2047 then
           (if f = 0 then sign OR 0x7F800000
            else sign OR 0x7FC00000 OR of_nat (f div 2 ^ 29))
         else
           (let m = (if e = 0 then f else 2 ^ 52 + f);
                e32 = int (max e 1) - 896;
                bits = (if 1 \<le> e32 then nat (e32 - 1) * 2 ^ 23 + round_shift m 29
                        else round_shift m (nat (30 - e32)))
            in if 0x7F800000 \<le> bits then sign OR 0x7F800000 else sign OR of_nat bits))"

text \<open>
  Go's \<^verbatim>\<open>==\<close> on two interface values: equal dynamic types and equal values, where
  floating-point values are compared as numbers.
\<close>

definition iface_eq :: "val \<Rightarrow> val \<Rightarrow> bool" where
  "iface_eq a b =
     (case (a, b) of
        (VFloat32 x, VFloat32 y) \<Rightarrow> f32_eq x y
      | (VFloat64 x, VFloat64 y) \<Rightarrow> f64_eq x y
      | _ \<Rightarrow> a = b)"

text \<open>
  Whether a value is a floating-point NaN. No value of another kind is one.
\<close>

fun val_isNaN :: "val \<Rightarrow> bool" where
  "val_isNaN (VFloat32 x) = f32_isNaN x"
| "val_isNaN (VFloat64 x) = f64_isNaN x"
| "val_isNaN v = False"

text \<open>
  Equality of two stored values, said without the comparison of the source: the two
  are the same value and that value is not a NaN, or they are two floating-point zeros
  of the same width, of either sign. \<open>float_zeros\<close> is the second case.
\<close>

fun float_zeros :: "val \<Rightarrow> val \<Rightarrow> bool" where
  "float_zeros (VFloat32 x) (VFloat32 y) =
     ((x = 0 \<or> x = 0x80000000) \<and> (y = 0 \<or> y = 0x80000000))"
| "float_zeros (VFloat64 x) (VFloat64 y) =
     ((x = 0 \<or> x = 0x8000000000000000) \<and> (y = 0 \<or> y = 0x8000000000000000))"
| "float_zeros a b = False"

definition equal_values :: "val \<Rightarrow> val \<Rightarrow> bool" where
  "equal_values a b = (a = b \<and> \<not> val_isNaN a \<or> float_zeros a b)"

section \<open>Metric types: compatibility and resolution\<close>

datatype MetricType =
    Int32Type
  | Uint32Type
  | Int64Type
  | Uint64Type
  | FloatType
  | DoubleType
  | StringType

text \<open>
  \<^verbatim>\<open>isCompatibleInt\<close> widens its argument to int64 and compares it with the bounds
  of the target type; \<open>sint\<close> reads the signed value. In the last case the source
  converts to uint64 before it compares with \<^verbatim>\<open>math.MaxUint64\<close>.
\<close>

definition isCompatibleInt :: "MetricType \<Rightarrow> 64 word \<Rightarrow> bool" where
  "isCompatibleInt m v =
     (case m of
        Int32Type \<Rightarrow> - (2 ^ 31) \<le> sint v \<and> sint v \<le> 2 ^ 31 - 1
      | Int64Type \<Rightarrow> - (2 ^ 63) \<le> sint v \<and> sint v \<le> 2 ^ 63 - 1
      | Uint32Type \<Rightarrow> 0 \<le> sint v \<and> sint v \<le> 2 ^ 32 - 1
      | Uint64Type \<Rightarrow> 0 \<le> sint v \<and> uint v \<le> 2 ^ 64 - 1
      | _ \<Rightarrow> False)"

definition isCompatibleUint :: "MetricType \<Rightarrow> 64 word \<Rightarrow> bool" where
  "isCompatibleUint m v =
     (if uint v \<le> 2 ^ 32 - 1 then m = Uint32Type \<or> m = Uint64Type
      else m = Uint64Type)"

definition isCompatibleFloat :: "MetricType \<Rightarrow> 64 word \<Rightarrow> bool" where
  "isCompatibleFloat m v =
     (if f64_le (f64_neg MaxFloat32) v \<and> f64_le v MaxFloat32 then m = FloatType \<or> m = DoubleType
      else m = DoubleType)"

fun IsCompatible :: "MetricType \<Rightarrow> val \<Rightarrow> bool" where
  "IsCompatible m (VInt v) = isCompatibleInt m v"
| "IsCompatible m (VInt32 v) = (m = Int32Type)"
| "IsCompatible m (VInt64 v) = (m = Int64Type)"
| "IsCompatible m (VUint v) = isCompatibleUint m v"
| "IsCompatible m (VUint32 v) = (m = Uint32Type)"
| "IsCompatible m (VUint64 v) = (m = Uint64Type)"
| "IsCompatible m (VFloat32 v) = (m = FloatType)"
| "IsCompatible m (VFloat64 v) = isCompatibleFloat m v"
| "IsCompatible m (VString v) = (m = StringType)"
| "IsCompatible m VNil = False"

text \<open>
  \<^verbatim>\<open>resolveInt\<close>: the conversions to a 32-bit type keep the low 32 bits
  (\<open>ucast\<close>), those between 64-bit types keep the bits.
\<close>

fun resolveInt :: "MetricType \<Rightarrow> val \<Rightarrow> val" where
  "resolveInt m (VInt vi) =
     (case m of
        Int64Type \<Rightarrow> VInt64 vi
      | Uint32Type \<Rightarrow> VUint32 (ucast vi)
      | Uint64Type \<Rightarrow> VUint64 vi
      | _ \<Rightarrow> VInt32 (ucast vi))"
| "resolveInt m (VUint vui) =
     (if m = Uint64Type then VUint64 vui else VUint32 (ucast vui))"
| "resolveInt m v = v"

fun resolveFloat :: "MetricType \<Rightarrow> val \<Rightarrow> val" where
  "resolveFloat m (VFloat64 x) =
     (if m = FloatType then VFloat32 (float32_of_float64 x) else VFloat64 x)"
| "resolveFloat m v = v"

definition resolve :: "MetricType \<Rightarrow> val \<Rightarrow> val" where
  "resolve m v = resolveFloat m (resolveInt m v)"

section \<open>Units\<close>

text \<open>
  The three unit types are \<^verbatim>\<open>uint32\<close> with named constants. Each constant is its
  position \<^verbatim>\<open>iota\<close> in the declaration, shifted and combined with the tag of its
  family; \<^verbatim>\<open>PMAPI\<close> returns that number.
\<close>

datatype SpaceUnit =
    ByteUnit
  | KilobyteUnit
  | MegabyteUnit
  | GigabyteUnit
  | TerabyteUnit
  | PetabyteUnit
  | ExabyteUnit

datatype TimeUnit =
    NanosecondUnit
  | MicrosecondUnit
  | MillisecondUnit
  | SecondUnit
  | MinuteUnit
  | HourUnit

datatype CountUnit = OneUnit

fun SpaceUnit_iota :: "SpaceUnit \<Rightarrow> 32 word" where
  "SpaceUnit_iota ByteUnit = 0"
| "SpaceUnit_iota KilobyteUnit = 1"
| "SpaceUnit_iota MegabyteUnit = 2"
| "SpaceUnit_iota GigabyteUnit = 3"
| "SpaceUnit_iota TerabyteUnit = 4"
| "SpaceUnit_iota PetabyteUnit = 5"
| "SpaceUnit_iota ExabyteUnit = 6"

fun TimeUnit_iota :: "TimeUnit \<Rightarrow> 32 word" where
  "TimeUnit_iota NanosecondUnit = 0"
| "TimeUnit_iota MicrosecondUnit = 1"
| "TimeUnit_iota MillisecondUnit = 2"
| "TimeUnit_iota SecondUnit = 3"
| "TimeUnit_iota MinuteUnit = 4"
| "TimeUnit_iota HourUnit = 5"

fun CountUnit_iota :: "CountUnit \<Rightarrow> 32 word" where
  "CountUnit_iota OneUnit = 0"

definition SpaceUnit_PMAPI :: "SpaceUnit \<Rightarrow> 32 word" where
  "SpaceUnit_PMAPI s = push_bit 28 1 OR push_bit 16 (SpaceUnit_iota s)"

definition TimeUnit_PMAPI :: "TimeUnit \<Rightarrow> 32 word" where
  "TimeUnit_PMAPI t = push_bit 24 1 OR push_bit 12 (TimeUnit_iota t)"

definition CountUnit_PMAPI :: "CountUnit \<Rightarrow> 32 word" where
  "CountUnit_PMAPI c = push_bit 20 1 OR push_bit 8 (CountUnit_iota c)"

text \<open>The interface \<^verbatim>\<open>MetricUnit\<close> with its three implementations.\<close>

datatype MetricUnit = Space SpaceUnit | Time TimeUnit | Count CountUnit

fun PMAPI :: "MetricUnit \<Rightarrow> 32 word" where
  "PMAPI (Space s) = SpaceUnit_PMAPI s"
| "PMAPI (Time t) = TimeUnit_PMAPI t"
| "PMAPI (Count c) = CountUnit_PMAPI c"

section \<open>Errors and panics\<close>

text \<open>
  The source builds its errors from message strings. The embedding names them by kind:
  \<^item> \<open>EmptyName\<close>: \<^verbatim>\<open>Metric name cannot be empty\<close>;
  \<^item> \<open>NameTooLong\<close>: \<^verbatim>\<open>metric name is too long\<close>;
  \<^item> \<open>TooManyDescriptions\<close>: \<^verbatim>\<open>only 2 optional strings allowed, short and long descriptions\<close>;
  \<^item> \<open>IncompatibleType\<close>: \<^verbatim>\<open>the value is incompatible with this metrics MetricType\<close>,
    \<^verbatim>\<open>type %v is not compatible with value %v\<close> and
    \<^verbatim>\<open>value %v is incompatible with type %v for Instance %v\<close>;
  \<^item> \<open>UnknownInstance\<close>: \<^verbatim>\<open>%v is not an instance of this metric\<close>;
  \<^item> \<open>InstanceCountMismatch\<close>:
    \<^verbatim>\<open>values for all instances in the instance domain only should be passed\<close>;
  \<^item> \<open>MissingInstanceValue\<close>: \<^verbatim>\<open>Instance %v not initialized\<close>;
  \<^item> \<open>WriteError\<close>: an error that the byte writer returns to an update closure.

  A call that panics (a failed type assertion, a nil dereference, a store into a nil
  map, \<^verbatim>\<open>panic(err)\<close>) has the outcome \<open>Panic\<close>.
\<close>

datatype error =
    EmptyName
  | NameTooLong
  | TooManyDescriptions
  | IncompatibleType
  | UnknownInstance
  | InstanceCountMismatch
  | MissingInstanceValue
  | WriteError string

datatype 'a outcome = Panic | Returns 'a

section \<open>Metric descriptors\<close>

datatype MetricSemantics =
    NoSemantics
  | CounterSemantics
  | InstantSemantics
  | DiscreteSemantics

text \<open>
  Modelled from the spec: the constant \<^verbatim>\<open>StringLength\<close> and the function
  \<^verbatim>\<open>hash\<close> (\<^verbatim>\<open>getHash\<close> in the older file) are used by the source and declared
  in a file that is not part of it. The spec calls the first an external format constant
  and gives no number, and describes the second as a stable hash of the name that, when a
  bit width is supplied, is masked into \<open>[0, 2^bitWidth)\<close>. Both the constant and the
  underlying 32-bit hash of a string are fields of \<open>extern\<close>; \<open>hash\<close> masks to the
  width, \<open>getHash\<close> is the call without a width.
\<close>

record extern =
  StringLength :: nat
  hash32 :: "string \<Rightarrow> 32 word"

definition hash :: "extern \<Rightarrow> string \<Rightarrow> nat \<Rightarrow> 32 word" where
  "hash ext n b = take_bit b (hash32 ext n)"

definition getHash :: "extern \<Rightarrow> string \<Rightarrow> 32 word" where
  "getHash ext n = hash32 ext n"

definition PCPMetricItemBitLength :: nat where
  "PCPMetricItemBitLength = 10"

text \<open>
  The fields of \<^verbatim>\<open>PCPMetricDesc\<close> are \<^verbatim>\<open>id\<close>, \<^verbatim>\<open>name\<close>, \<^verbatim>\<open>t\<close>, \<^verbatim>\<open>sem\<close>,
  \<^verbatim>\<open>u\<close>, \<^verbatim>\<open>shortDescription\<close> and \<^verbatim>\<open>longDescription\<close>; the prefix keeps them
  apart from the fields of the other structs.
\<close>

record PCPMetricDesc =
  md_id :: "32 word"
  md_name :: string
  md_t :: MetricType
  md_sem :: MetricSemantics
  md_u :: MetricUnit
  md_shortDescription :: string
  md_longDescription :: string

definition newPCPMetricDesc ::
  "extern \<Rightarrow> string \<Rightarrow> MetricType \<Rightarrow> MetricSemantics \<Rightarrow> MetricUnit \<Rightarrow> string list
     \<Rightarrow> error + PCPMetricDesc" where
  "newPCPMetricDesc ext n t s u desc =
     (if n = [] then Inl EmptyName
      else if StringLength ext < length n then Inl NameTooLong
      else if 2 < length desc then Inl TooManyDescriptions
      else
        (let shortdesc = (if 0 < length desc then desc ! 0 else []);
             longdesc = (if 1 < length desc then desc ! 1 else [])
         in Inr \<lparr>md_id = hash ext n PCPMetricItemBitLength, md_name = n, md_t = t, md_sem = s,
                  md_u = u, md_shortDescription = shortdesc, md_longDescription = longdesc\<rparr>))"

definition ID :: "PCPMetricDesc \<Rightarrow> 32 word" where
  "ID md = md_id md"

section \<open>Update closures and the mapped region\<close>

text \<open>
  An update closure writes a value into the mapped region through the byte writer, an
  external collaborator. The region is a state of any type \<open>'b\<close>; a closure takes the
  value and the region and returns its error (or none) and the region after the write.
  \<open>hook_log\<close> instruments the calls: \<open>call_update\<close>, the one place where a closure
  is applied, appends the value passed and the error returned.
\<close>

type_synonym 'b updateClosure = "val \<Rightarrow> 'b \<Rightarrow> error option \<times> 'b"

record 'b world =
  buffer :: 'b
  hook_log :: "(val \<times> error option) list"

definition call_update :: "'b updateClosure \<Rightarrow> val \<Rightarrow> 'b world \<Rightarrow> error option \<times> 'b world" where
  "call_update f v w =
     (case f v (buffer w) of
        (e, b') \<Rightarrow> (e, \<lparr>buffer = b', hook_log = hook_log w @ [(v, e)]\<rparr>))"

section \<open>Singleton metrics\<close>

text \<open>
  \<^verbatim>\<open>PCPSingletonMetric\<close>: the embedded descriptor, the value and the update closure
  (\<open>None\<close> is the nil closure). The embedded lock is not modelled: the functions below
  are the effect of one call that runs alone.
\<close>

record 'b PCPSingletonMetric =
  sm_desc :: PCPMetricDesc
  sm_val :: val
  sm_update :: "'b updateClosure option"

definition NewPCPSingletonMetric ::
  "extern \<Rightarrow> val \<Rightarrow> string \<Rightarrow> MetricType \<Rightarrow> MetricSemantics \<Rightarrow> MetricUnit \<Rightarrow> string list
     \<Rightarrow> error + 'b PCPSingletonMetric" where
  "NewPCPSingletonMetric ext v n t s u desc =
     (if \<not> IsCompatible t v then Inl IncompatibleType
      else
        (case newPCPMetricDesc ext n t s u desc of
           Inl err \<Rightarrow> Inl err
         | Inr d \<Rightarrow> Inr \<lparr>sm_desc = d, sm_val = resolve t v, sm_update = None\<rparr>))"

definition Val :: "'b PCPSingletonMetric \<Rightarrow> val" where
  "Val m = sm_val m"

definition Set ::
  "'b PCPSingletonMetric \<Rightarrow> val \<Rightarrow> 'b world \<Rightarrow> error option \<times> 'b PCPSingletonMetric \<times> 'b world" where
  "Set m v w =
     (if \<not> IsCompatible (md_t (sm_desc m)) v then (Some IncompatibleType, m, w)
      else
        (let v' = resolveFloat (md_t (sm_desc m)) (resolveInt (md_t (sm_desc m)) v)
         in if \<not> iface_eq v' (sm_val m) then
              (case sm_update m of
                 None \<Rightarrow> (None, m\<lparr>sm_val := v'\<rparr>, w)
               | Some f \<Rightarrow>
                   (case call_update f v' w of
                      (Some err, w') \<Rightarrow> (Some err, m, w')
                    | (None, w') \<Rightarrow> (None, m\<lparr>sm_val := v'\<rparr>, w')))
            else (None, m, w)))"

definition MustSet ::
  "'b PCPSingletonMetric \<Rightarrow> val \<Rightarrow> 'b world \<Rightarrow> ('b PCPSingletonMetric \<times> 'b world) outcome" where
  "MustSet m v w =
     (case Set m v w of
        (Some err, m', w') \<Rightarrow> Panic
      | (None, m', w') \<Rightarrow> Returns (m', w'))"

section \<open>Instance metrics\<close>

text \<open>
  Modelled from the spec: the types \<^verbatim>\<open>PCPInstanceDomain\<close> and \<^verbatim>\<open>Instances\<close> and the
  methods \<^verbatim>\<open>InstanceCount\<close> and \<^verbatim>\<open>HasInstance\<close> are used by \<^verbatim>\<open>metrics.go\<close> and
  declared in a file that is not part of the source. The spec gives a domain an id, a
  name, its instances and two help texts, and an instance an id, a name and a reference
  to its domain (here the domain's id). \<^verbatim>\<open>metrics.go\<close> ranges over the domain's
  instances by name and looks the names up in the supplied values, so both maps have
  names as keys. A map is an association list with distinct keys; the order of the
  domain's list is the order in which \<^verbatim>\<open>range\<close> visits the keys, which Go leaves
  open.
\<close>

record Instance =
  inst_id :: "32 word"
  inst_name :: string
  inst_indom :: "32 word"

record PCPInstanceDomain =
  indom_id :: "32 word"
  indom_name :: string
  indom_instances :: "(string \<times> Instance) list"
  indom_shortHelpText :: string
  indom_longHelpText :: string

type_synonym Instances = "(string \<times> val) list"

definition InstanceCount :: "PCPInstanceDomain \<Rightarrow> nat" where
  "InstanceCount indom = length (indom_instances indom)"

definition HasInstance :: "PCPInstanceDomain \<Rightarrow> string \<Rightarrow> bool" where
  "HasInstance indom n = (map_of (indom_instances indom) n \<noteq> None)"

record 'b instanceValue =
  iv_val :: val
  iv_update :: "'b updateClosure option"

definition newinstanceValue :: "val \<Rightarrow> 'b instanceValue" where
  "newinstanceValue v = \<lparr>iv_val = v, iv_update = None\<rparr>"

record 'b PCPInstanceMetric =
  im_desc :: PCPMetricDesc
  im_indom :: PCPInstanceDomain
  im_vals :: "string \<rightharpoonup> 'b instanceValue"

text \<open>
  The loop of \<^verbatim>\<open>NewPCPInstanceMetric\<close> over the names of the domain, with the map
  \<^verbatim>\<open>mvals\<close> built so far.
\<close>

fun initInstances ::
  "Instances \<Rightarrow> MetricType \<Rightarrow> string list \<Rightarrow> (string \<rightharpoonup> 'b instanceValue)
     \<Rightarrow> error + (string \<rightharpoonup> 'b instanceValue)" where
  "initInstances vals t [] mvals = Inr mvals"
| "initInstances vals t (n # ns) mvals =
     (case map_of vals n of
        None \<Rightarrow> Inl MissingInstanceValue
      | Some v \<Rightarrow>
          if \<not> IsCompatible t v then Inl IncompatibleType
          else initInstances vals t ns (mvals(n \<mapsto> newinstanceValue (resolve t v))))"

definition NewPCPInstanceMetric ::
  "extern \<Rightarrow> Instances \<Rightarrow> string \<Rightarrow> PCPInstanceDomain \<Rightarrow> MetricType \<Rightarrow> MetricSemantics
     \<Rightarrow> MetricUnit \<Rightarrow> string list \<Rightarrow> error + 'b PCPInstanceMetric" where
  "NewPCPInstanceMetric ext vals n indom t s u desc =
     (if length vals \<noteq> InstanceCount indom then Inl InstanceCountMismatch
      else
        (case newPCPMetricDesc ext n t s u desc of
           Inl err \<Rightarrow> Inl err
         | Inr d \<Rightarrow>
             (case initInstances vals t (map fst (indom_instances indom)) Map.empty of
                Inl err \<Rightarrow> Inl err
              | Inr mvals \<Rightarrow> Inr \<lparr>im_desc = d, im_indom = indom, im_vals = mvals\<rparr>)))"

text \<open>
  \<^verbatim>\<open>ValInstance\<close> and \<^verbatim>\<open>SetInstance\<close> dereference \<^verbatim>\<open>m.vals[instance]\<close>: for a
  name without an entry that is a nil pointer, and the call panics.
\<close>

definition ValInstance :: "'b PCPInstanceMetric \<Rightarrow> string \<Rightarrow> (error + val) outcome" where
  "ValInstance m inst =
     (if \<not> HasInstance (im_indom m) inst then Returns (Inl UnknownInstance)
      else
        (case im_vals m inst of
           None \<Rightarrow> Panic
         | Some iv \<Rightarrow> Returns (Inr (iv_val iv))))"

definition SetInstance ::
  "'b PCPInstanceMetric \<Rightarrow> string \<Rightarrow> val \<Rightarrow> 'b world
     \<Rightarrow> (error option \<times> 'b PCPInstanceMetric \<times> 'b world) outcome" where
  "SetInstance m inst v w =
     (if \<not> IsCompatible (md_t (im_desc m)) v then Returns (Some IncompatibleType, m, w)
      else if \<not> HasInstance (im_indom m) inst then Returns (Some UnknownInstance, m, w)
      else
        (let v' = resolveFloat (md_t (im_desc m)) (resolveInt (md_t (im_desc m)) v)
         in case im_vals m inst of
              None \<Rightarrow> Panic
            | Some iv \<Rightarrow>
                if \<not> iface_eq (iv_val iv) v' then
                  (case iv_update iv of
                     None \<Rightarrow> Returns (None, m\<lparr>im_vals := (im_vals m)(inst \<mapsto> iv\<lparr>iv_val := v'\<rparr>)\<rparr>, w)
                   | Some f \<Rightarrow>
                       (case call_update f v' w of
                          (Some err, w') \<Rightarrow> Returns (Some err, m, w')
                        | (None, w') \<Rightarrow>
                            Returns (None, m\<lparr>im_vals := (im_vals m)(inst \<mapsto> iv\<lparr>iv_val := v'\<rparr>)\<rparr>, w')))
                else Returns (None, m, w)))"

section \<open>Counters\<close>

text \<open>
  \<^verbatim>\<open>PCPCounter\<close> wraps a pointer to a singleton metric and nothing else. Its methods
  \<^verbatim>\<open>Val\<close> and \<^verbatim>\<open>Set\<close> are \<open>Counter_Val\<close> and \<open>Counter_Set\<close> here. \<^verbatim>\<open>Val\<close>
  asserts that the stored value is an int64 and panics otherwise; the addition in
  \<^verbatim>\<open>Inc\<close> and the negation in \<^verbatim>\<open>Dec\<close> wrap around.
\<close>

type_synonym 'b PCPCounter = "'b PCPSingletonMetric"

definition NewPCPCounter :: "extern \<Rightarrow> 64 word \<Rightarrow> string \<Rightarrow> string list \<Rightarrow> error + 'b PCPCounter" where
  "NewPCPCounter ext v n desc =
     NewPCPSingletonMetric ext (VInt64 v) n Int64Type CounterSemantics (Count OneUnit) desc"

definition Counter_Val :: "'b PCPCounter \<Rightarrow> 64 word outcome" where
  "Counter_Val c = (case Val c of VInt64 x \<Rightarrow> Returns x | _ \<Rightarrow> Panic)"

definition Counter_Set ::
  "'b PCPCounter \<Rightarrow> 64 word \<Rightarrow> 'b world \<Rightarrow> error option \<times> 'b PCPCounter \<times> 'b world" where
  "Counter_Set c x w = Set c (VInt64 x) w"

definition Inc ::
  "'b PCPCounter \<Rightarrow> 64 word \<Rightarrow> 'b world \<Rightarrow> (error option \<times> 'b PCPCounter \<times> 'b world) outcome" where
  "Inc c x w =
     (case Counter_Val c of
        Panic \<Rightarrow> Panic
      | Returns v \<Rightarrow> Returns (Counter_Set c (v + x) w))"

definition MustInc :: "'b PCPCounter \<Rightarrow> 64 word \<Rightarrow> 'b world \<Rightarrow> ('b PCPCounter \<times> 'b world) outcome" where
  "MustInc c x w =
     (case Inc c x w of
        Panic \<Rightarrow> Panic
      | Returns (Some err, c', w') \<Rightarrow> Panic
      | Returns (None, c', w') \<Rightarrow> Returns (c', w'))"

definition Dec ::
  "'b PCPCounter \<Rightarrow> 64 word \<Rightarrow> 'b world \<Rightarrow> (error option \<times> 'b PCPCounter \<times> 'b world) outcome" where
  "Dec c x w = Inc c (- x) w"

definition MustDec :: "'b PCPCounter \<Rightarrow> 64 word \<Rightarrow> 'b world \<Rightarrow> ('b PCPCounter \<times> 'b world) outcome" where
  "MustDec c x w =
     (case Dec c x w of
        Panic \<Rightarrow> Panic
      | Returns (Some err, c', w') \<Rightarrow> Panic
      | Returns (None, c', w') \<Rightarrow> Returns (c', w'))"

definition Up :: "'b PCPCounter \<Rightarrow> 'b world \<Rightarrow> ('b PCPCounter \<times> 'b world) outcome" where
  "Up c w = MustInc c 1 w"

definition Down :: "'b PCPCounter \<Rightarrow> 'b world \<Rightarrow> ('b PCPCounter \<times> 'b world) outcome" where
  "Down c w = MustDec c 1 w"

text \<open>
  The states a counter can be in: \<^verbatim>\<open>NewPCPCounter\<close> returns it, the registry installs
  an update closure, or a call of \<^verbatim>\<open>Set\<close> (the counter's, or the one of the embedded
  metric with a value of any kind), \<^verbatim>\<open>Inc\<close>, \<^verbatim>\<open>Dec\<close>, \<^verbatim>\<open>Up\<close> or \<^verbatim>\<open>Down\<close>
  returns, with or without an error, or a call of \<^verbatim>\<open>MustSet\<close>, \<^verbatim>\<open>MustInc\<close> or
  \<^verbatim>\<open>MustDec\<close> returns.
\<close>

inductive counter_state :: "extern \<Rightarrow> 'b PCPCounter \<Rightarrow> bool" for ext :: extern where
  cs_new: "NewPCPCounter ext v n desc = Inr c \<Longrightarrow> counter_state ext c"
| cs_hook: "counter_state ext c \<Longrightarrow> counter_state ext (c\<lparr>sm_update := f\<rparr>)"
| cs_Set: "counter_state ext c \<Longrightarrow> Counter_Set c x w = (e, c', w') \<Longrightarrow> counter_state ext c'"
| cs_metric_Set: "counter_state ext c \<Longrightarrow> Set c v w = (e, c', w') \<Longrightarrow> counter_state ext c'"
| cs_Inc: "counter_state ext c \<Longrightarrow> Inc c x w = Returns (e, c', w') \<Longrightarrow> counter_state ext c'"
| cs_Dec: "counter_state ext c \<Longrightarrow> Dec c x w = Returns (e, c', w') \<Longrightarrow> counter_state ext c'"
| cs_Up: "counter_state ext c \<Longrightarrow> Up c w = Returns (c', w') \<Longrightarrow> counter_state ext c'"
| cs_Down: "counter_state ext c \<Longrightarrow> Down c w = Returns (c', w') \<Longrightarrow> counter_state ext c'"
| cs_MustSet: "counter_state ext c \<Longrightarrow> MustSet c v w = Returns (c', w') \<Longrightarrow> counter_state ext c'"
| cs_MustInc: "counter_state ext c \<Longrightarrow> MustInc c x w = Returns (c', w') \<Longrightarrow> counter_state ext c'"
| cs_MustDec: "counter_state ext c \<Longrightarrow> MustDec c x w = Returns (c', w') \<Longrightarrow> counter_state ext c'"

text \<open>
  The invariant of a counter: its type is \<open>Int64Type\<close> and the stored value is an
  int64, which is what the type assertion of \<^verbatim>\<open>Val\<close> needs.
\<close>

definition counter_inv :: "'b PCPCounter \<Rightarrow> bool" where
  "counter_inv c = (md_t (sm_desc c) = Int64Type \<and> (\<exists>x. sm_val c = VInt64 x))"

subsection \<open>Interleaved calls of Up\<close>

text \<open>
  \<^verbatim>\<open>Up\<close> is \<^verbatim>\<open>MustInc(1)\<close>, that is \<^verbatim>\<open>v := c.Val()\<close> followed by
  \<^verbatim>\<open>c.Set(v + 1)\<close> and a panic on an error. \<^verbatim>\<open>Val\<close> holds the read lock of the
  metric and \<^verbatim>\<open>Set\<close> the write lock, each for its own duration; nothing is held from
  the one call to the other. A goroutine that runs \<^verbatim>\<open>Up\<close> is therefore at one of three
  points: before \<^verbatim>\<open>Val\<close>, between the two calls with \<open>v\<close> in hand, or done. A
  schedule lists the goroutines in the order in which they take their next step.
\<close>

datatype up_pc = AtVal | AtSet "64 word" | Finished

fun Up_step ::
  "'b PCPCounter \<times> 'b world \<Rightarrow> up_pc \<Rightarrow> (('b PCPCounter \<times> 'b world) \<times> up_pc) outcome" where
  "Up_step (c, w) AtVal =
     (case Counter_Val c of
        Panic \<Rightarrow> Panic
      | Returns v \<Rightarrow> Returns ((c, w), AtSet v))"
| "Up_step (c, w) (AtSet v) =
     (case Counter_Set c (v + 1) w of
        (Some err, c', w') \<Rightarrow> Panic
      | (None, c', w') \<Rightarrow> Returns ((c', w'), Finished))"
| "Up_step (c, w) Finished = Returns ((c, w), Finished)"

fun run_Ups ::
  "nat list \<Rightarrow> ('b PCPCounter \<times> 'b world) \<times> up_pc list
     \<Rightarrow> (('b PCPCounter \<times> 'b world) \<times> up_pc list) outcome" where
  "run_Ups [] st = Returns st"
| "run_Ups (i # sched) (s, pcs) =
     (if i < length pcs then
        (case Up_step s (pcs ! i) of
           Panic \<Rightarrow> Panic
         | Returns (s', pc') \<Rightarrow> run_Ups sched (s', pcs[i := pc']))
      else run_Ups sched (s, pcs))"

section \<open>Instance domains of the older file\<close>

text \<open>
  The unnamed source file declares \<^verbatim>\<open>InstanceDomain\<close>, the package-level map
  \<^verbatim>\<open>instanceDomains\<close> from ids to pointers, and \<^verbatim>\<open>NewInstanceDomain\<close>. Domains live
  in a heap, a list in which the address of an object is its position; a pointer is an
  address or nil (\<open>None\<close>). A map that has only been declared is nil (\<open>None\<close>): reading
  it finds nothing, storing into it panics. \<^verbatim>\<open>make\<close> gives the empty map.
\<close>

record InstanceDomain =
  dom_id :: "32 word"
  dom_name :: string
  dom_instances :: "32 word \<rightharpoonup> Instance"
  dom_shortHelpText :: string
  dom_longHelpText :: string

record globals =
  instanceDomains :: "(32 word \<rightharpoonup> nat) option"
  heap :: "InstanceDomain list"

definition initial_globals :: globals where
  "initial_globals = \<lparr>instanceDomains = None, heap = []\<rparr>"

definition map_index :: "('k \<rightharpoonup> 'v) option \<Rightarrow> 'k \<Rightarrow> 'v option" where
  "map_index m k = (case m of None \<Rightarrow> None | Some f \<Rightarrow> f k)"

definition NewInstanceDomain ::
  "extern \<Rightarrow> string \<Rightarrow> string \<Rightarrow> string \<Rightarrow> globals \<Rightarrow> (nat option \<times> globals) outcome" where
  "NewInstanceDomain ext n shortDescription longDescription g =
     (let h = getHash ext n
      in case map_index (instanceDomains g) h of
           Some v \<Rightarrow> Returns (Some v, g)
         | None \<Rightarrow>
             (case instanceDomains g of
                None \<Rightarrow> Panic
              | Some f \<Rightarrow>
                  (let cache = Map.empty;
                       a = length (heap g);
                       g' = g\<lparr>instanceDomains := Some (f(h \<mapsto> a)),
                              heap := heap g @ [\<lparr>dom_id = h, dom_name = n, dom_instances = cache,
                                               dom_shortHelpText = shortDescription,
                                               dom_longHelpText = longDescription\<rparr>]\<rparr>
                   in Returns (map_index (instanceDomains g') h, g'))))"

section \<open>Sample inputs\<close>

text \<open>
  Concrete inputs at which the theorems below are applied: an \<open>extern\<close> with a maximal
  name length of 256 and the length of the name as its hash, a region that holds
  nothing, an update closure that fails and one that succeeds, and a domain with the
  instances \<^verbatim>\<open>a\<close> and \<^verbatim>\<open>b\<close>.
\<close>

definition sample_extern :: extern where
  "sample_extern = \<lparr>StringLength = 256, hash32 = (\<lambda>n. of_nat (length n))\<rparr>"

definition sample_world :: "unit world" where
  "sample_world = \<lparr>buffer = (), hook_log = []\<rparr>"

definition failing_update :: "unit updateClosure" where
  "failing_update v b = (Some (WriteError ''write failed''), b)"

definition working_update :: "unit updateClosure" where
  "working_update v b = (None, b)"

definition sample_indom :: PCPInstanceDomain where
  "sample_indom =
     \<lparr>indom_id = 4, indom_name = ''disk'',
      indom_instances =
        [(''a'', \<lparr>inst_id = 1, inst_name = ''a'', inst_indom = 4\<rparr>),
         (''b'', \<lparr>inst_id = 1, inst_name = ''b'', inst_indom = 4\<rparr>)],
      indom_shortHelpText = [], indom_longHelpText = []\<rparr>"

definition sample_desc :: PCPMetricDesc where
  "sample_desc =
     \<lparr>md_id = 8, md_name = ''requests'', md_t = Int64Type, md_sem = CounterSemantics,
      md_u = Count OneUnit, md_shortDescription = [], md_longDescription = []\<rparr>"

definition sample_counter :: "unit PCPCounter" where
  "sample_counter = \<lparr>sm_desc = sample_desc, sm_val = VInt64 0, sm_update = None\<rparr>"

definition sample_instance_metric :: "unit PCPInstanceMetric" where
  "sample_instance_metric =
     \<lparr>im_desc = sample_desc, im_indom = sample_indom,
      im_vals = [''a'' \<mapsto> \<lparr>iv_val = VInt64 0, iv_update = Some failing_update\<rparr>,
                 ''b'' \<mapsto> \<lparr>iv_val = VInt64 7, iv_update = Some failing_update\<rparr>]\<rparr>"

definition made_globals :: globals where
  "made_globals = \<lparr>instanceDomains = Some Map.empty, heap = []\<rparr>"

definition disk_globals :: globals where
  "disk_globals =
     \<lparr>instanceDomains = Some [4 \<mapsto> 0],
      heap = [\<lparr>dom_id = 4, dom_name = ''disk'', dom_instances = Map.empty,
               dom_shortHelpText = ''short'', dom_longHelpText = ''long''\<rparr>]\<rparr>"

text \<open>
  A quiet NaN as a float64, and the metric of type \<open>DoubleType\<close> that
  \<^verbatim>\<open>NewPCPSingletonMetric\<close> returns for it under the name \<^verbatim>\<open>ratio\<close>.
\<close>

definition quiet_NaN :: "64 word" where
  "quiet_NaN = 0x7FF8000000000000"

definition nan_metric :: "unit PCPSingletonMetric" where
  "nan_metric =
     \<lparr>sm_desc = \<lparr>md_id = 5, md_name = ''ratio'', md_t = DoubleType, md_sem = InstantSemantics,
                 md_u = Count OneUnit, md_shortDescription = [], md_longDescription = []\<rparr>,
      sm_val = VFloat64 quiet_NaN, sm_update = None\<rparr>"

section \<open>Properties\<close>

subsection \<open>Helper lemmas\<close>

lemma hash_bound: "unat (hash ext n b) < 2 ^ b"
  by (simp add: hash_def unsigned_take_bit_eq)

lemma sample_counter_new:
  "NewPCPCounter sample_extern 0 ''requests'' [] = Inr sample_counter"
  by (simp add: NewPCPCounter_def NewPCPSingletonMetric_def newPCPMetricDesc_def resolve_def
      sample_extern_def sample_counter_def sample_desc_def hash_def PCPMetricItemBitLength_def)

lemma Set_cases:
  "Set m v w =
    (if \<not> IsCompatible (md_t (sm_desc m)) v then (Some IncompatibleType, m, w)
     else if iface_eq (resolve (md_t (sm_desc m)) v) (sm_val m) then (None, m, w)
     else case sm_update m of
        None \<Rightarrow> (None, m\<lparr>sm_val := resolve (md_t (sm_desc m)) v\<rparr>, w)
      | Some f \<Rightarrow>
          (case fst (f (resolve (md_t (sm_desc m)) v) (buffer w)) of
             Some err \<Rightarrow> (Some err, m, snd (call_update f (resolve (md_t (sm_desc m)) v) w))
           | None \<Rightarrow>
               (None, m\<lparr>sm_val := resolve (md_t (sm_desc m)) v\<rparr>,
                snd (call_update f (resolve (md_t (sm_desc m)) v) w))))"
  by (auto simp: Set_def resolve_def call_update_def Let_def split: option.splits prod.splits)

subsection \<open>Setting an unchanged value\<close>

lemma iface_eq_same: "iface_eq a a = (\<not> val_isNaN a)"
  by (cases a) (simp_all add: iface_eq_def f32_eq_def f64_eq_def)

lemma float_zeros_iface_eq: "float_zeros a b \<Longrightarrow> iface_eq a b"
  by (cases a; cases b)
     (auto simp: iface_eq_def f32_eq_def f64_eq_def f32_isNaN_def f64_isNaN_def f32_key_def
        f64_key_def bit_iff_odd)

lemma word64_split:
  fixes x y :: "64 word"
  assumes "x AND mask 63 = y AND mask 63" and "bit x 63 = bit y 63"
  shows "x = y"
proof (rule bit_word_eqI)
  fix n assume "n < LENGTH(64)"
  then have n: "n < 63 \<or> n = 63" by auto
  from assms(1) have "bit (x AND mask 63) n = bit (y AND mask 63) n" by simp
  with n assms(2) show "bit x n = bit y n"
    by (auto simp: bit_and_iff bit_mask_iff)
qed

lemma word32_split:
  fixes x y :: "32 word"
  assumes "x AND mask 31 = y AND mask 31" and "bit x 31 = bit y 31"
  shows "x = y"
proof (rule bit_word_eqI)
  fix n assume "n < LENGTH(32)"
  then have n: "n < 31 \<or> n = 31" by auto
  from assms(1) have "bit (x AND mask 31) n = bit (y AND mask 31) n" by simp
  with n assms(2) show "bit x n = bit y n"
    by (auto simp: bit_and_iff bit_mask_iff)
qed

lemma f64_key_eq:
  assumes "f64_key x = f64_key y"
  shows "x = y \<or> ((x = 0 \<or> x = 0x8000000000000000) \<and> (y = 0 \<or> y = 0x8000000000000000))"
proof (cases "bit x 63 = bit y 63")
  case True
  have m: "(0x7FFFFFFFFFFFFFFF :: 64 word) = mask 63"
    by (simp add: mask_eq_exp_minus_1)
  from True assms have "uint (x AND mask 63) = uint (y AND mask 63)"
    by (auto simp: f64_key_def m split: if_splits)
  then have "x AND mask 63 = y AND mask 63" by (rule word_uint_eqI)
  with True show ?thesis using word64_split by blast
next
  case False
  have m: "(0x7FFFFFFFFFFFFFFF :: 64 word) = mask 63"
    by (simp add: mask_eq_exp_minus_1)
  have "0 \<le> uint (x AND mask 63)" and "0 \<le> uint (y AND mask 63)"
    by simp_all
  moreover from False assms have "- uint (x AND mask 63) = uint (y AND mask 63) \<or>
      uint (x AND mask 63) = - uint (y AND mask 63)"
    unfolding f64_key_def m by (cases "bit x 63"; cases "bit y 63") simp_all
  ultimately have "uint (x AND mask 63) = 0 \<and> uint (y AND mask 63) = 0"
    by arith
  then have "uint (x AND mask 63) = uint (0 AND mask 63 :: 64 word)"
    and "uint (y AND mask 63) = uint (0 AND mask 63 :: 64 word)"
    by simp_all
  then have z: "x AND mask 63 = 0 AND mask 63" "y AND mask 63 = 0 AND mask 63"
    by (blast intro: word_uint_eqI)+
  have h1: "(0x8000000000000000 :: 64 word) AND mask 63 = 0"
    by (simp add: mask_eq_exp_minus_1)
  have h2: "bit (0x8000000000000000 :: 64 word) 63"
    by (simp add: bit_iff_odd)
  have "w = 0 \<or> w = 0x8000000000000000" if "w AND mask 63 = 0 AND mask 63" for w :: "64 word"
  proof (cases "bit w 63")
    case True
    from that h1 have "w AND mask 63 = 0x8000000000000000 AND mask 63" by simp
    moreover from True h2 have "bit w 63 = bit (0x8000000000000000 :: 64 word) 63" by simp
    ultimately have "w = 0x8000000000000000" by (rule word64_split)
    then show ?thesis by simp
  next
    case False
    then have "bit w 63 = bit (0 :: 64 word) 63" by simp
    with that have "w = 0" by (rule word64_split)
    then show ?thesis by simp
  qed
  with z show ?thesis by blast
qed

lemma f32_key_eq:
  assumes "f32_key x = f32_key y"
  shows "x = y \<or> ((x = 0 \<or> x = 0x80000000) \<and> (y = 0 \<or> y = 0x80000000))"
proof (cases "bit x 31 = bit y 31")
  case True
  have m: "(0x7FFFFFFF :: 32 word) = mask 31"
    by (simp add: mask_eq_exp_minus_1)
  from True assms have "uint (x AND mask 31) = uint (y AND mask 31)"
    by (auto simp: f32_key_def m split: if_splits)
  then have "x AND mask 31 = y AND mask 31" by (rule word_uint_eqI)
  with True show ?thesis using word32_split by blast
next
  case False
  have m: "(0x7FFFFFFF :: 32 word) = mask 31"
    by (simp add: mask_eq_exp_minus_1)
  have "0 \<le> uint (x AND mask 31)" and "0 \<le> uint (y AND mask 31)"
    by simp_all
  moreover from False assms have "- uint (x AND mask 31) = uint (y AND mask 31) \<or>
      uint (x AND mask 31) = - uint (y AND mask 31)"
    unfolding f32_key_def m by (cases "bit x 31"; cases "bit y 31") simp_all
  ultimately have "uint (x AND mask 31) = 0 \<and> uint (y AND mask 31) = 0"
    by arith
  then have "uint (x AND mask 31) = uint (0 AND mask 31 :: 32 word)"
    and "uint (y AND mask 31) = uint (0 AND mask 31 :: 32 word)"
    by simp_all
  then have z: "x AND mask 31 = 0 AND mask 31" "y AND mask 31 = 0 AND mask 31"
    by (blast intro: word_uint_eqI)+
  have h1: "(0x80000000 :: 32 word) AND mask 31 = 0"
    by (simp add: mask_eq_exp_minus_1)
  have h2: "bit (0x80000000 :: 32 word) 31"
    by (simp add: bit_iff_odd)
  have "w = 0 \<or> w = 0x80000000" if "w AND mask 31 = 0 AND mask 31" for w :: "32 word"
  proof (cases "bit w 31")
    case True
    from that h1 have "w AND mask 31 = 0x80000000 AND mask 31" by simp
    moreover from True h2 have "bit w 31 = bit (0x80000000 :: 32 word) 31" by simp
    ultimately have "w = 0x80000000" by (rule word32_split)
    then show ?thesis by simp
  next
    case False
    then have "bit w 31 = bit (0 :: 32 word) 31" by simp
    with that have "w = 0" by (rule word32_split)
    then show ?thesis by simp
  qed
  with z show ?thesis by blast
qed

text \<open>
  Go's \<^verbatim>\<open>==\<close> on two stored values holds exactly when they are the same value and
  not a NaN, or two floating-point zeros of the same width.
\<close>

lemma iface_eq_equal_values: "iface_eq a b = equal_values a b"
proof
  assume e: "iface_eq a b"
  show "equal_values a b"
  proof (cases "(\<exists>x y. a = VFloat32 x \<and> b = VFloat32 y) \<or> (\<exists>x y. a = VFloat64 x \<and> b = VFloat64 y)")
    case True
    then show ?thesis
    proof
      assume "\<exists>x y. a = VFloat32 x \<and> b = VFloat32 y"
      then obtain x y where ab: "a = VFloat32 x" "b = VFloat32 y" by blast
      with e have "\<not> f32_isNaN x" and "f32_key x = f32_key y"
        by (simp_all add: iface_eq_def f32_eq_def)
      with f32_key_eq [of x y] ab show ?thesis
        by (auto simp: equal_values_def)
    next
      assume "\<exists>x y. a = VFloat64 x \<and> b = VFloat64 y"
      then obtain x y where ab: "a = VFloat64 x" "b = VFloat64 y" by blast
      with e have "\<not> f64_isNaN x" and "f64_key x = f64_key y"
        by (simp_all add: iface_eq_def f64_eq_def)
      with f64_key_eq [of x y] ab show ?thesis
        by (auto simp: equal_values_def)
    qed
  next
    case False
    with e have "a = b \<and> \<not> val_isNaN a"
      by (cases a; cases b) (auto simp: iface_eq_def)
    then show ?thesis by (auto simp: equal_values_def)
  qed
next
  assume "equal_values a b"
  then show "iface_eq a b"
    unfolding equal_values_def using iface_eq_same [of a] float_zeros_iface_eq [of a b] by blast
qed

lemma quiet_NaN_isNaN: "f64_isNaN quiet_NaN"
  by (simp add: f64_isNaN_def quiet_NaN_def)

lemma nan_metric_new:
  "NewPCPSingletonMetric sample_extern (VFloat64 quiet_NaN) ''ratio'' DoubleType InstantSemantics
     (Count OneUnit) [] = Inr nan_metric"
  using quiet_NaN_isNaN
  by (simp add: NewPCPSingletonMetric_def newPCPMetricDesc_def resolve_def isCompatibleFloat_def
      f64_le_def sample_extern_def nan_metric_def hash_def PCPMetricItemBitLength_def)

text \<open>
  C1, as the spec states it, fails: \<^verbatim>\<open>Set\<close> compares the resolved value with the
  stored one by Go's \<^verbatim>\<open>!=\<close>, and a NaN is unequal to itself. A metric of type
  \<open>DoubleType\<close> created with a NaN stores that NaN; the same NaN is compatible and
  resolves to the stored value; setting the metric to it invokes the update closure, and
  with a closure that fails \<^verbatim>\<open>Set\<close> returns the error.
\<close>

theorem Set_NaN_counterexample:
  "NewPCPSingletonMetric sample_extern (VFloat64 quiet_NaN) ''ratio'' DoubleType InstantSemantics
     (Count OneUnit) [] = Inr nan_metric \<and>
   IsCompatible (md_t (sm_desc nan_metric)) (VFloat64 quiet_NaN) \<and>
   resolve (md_t (sm_desc nan_metric)) (VFloat64 quiet_NaN) = sm_val nan_metric \<and>
   Set (nan_metric\<lparr>sm_update := Some failing_update\<rparr>) (VFloat64 quiet_NaN) sample_world
     = (Some (WriteError ''write failed''), nan_metric\<lparr>sm_update := Some failing_update\<rparr>,
        \<lparr>buffer = (), hook_log = [(VFloat64 quiet_NaN, Some (WriteError ''write failed''))]\<rparr>)"
  using quiet_NaN_isNaN nan_metric_new
  by (simp add: Set_def call_update_def nan_metric_def sample_world_def failing_update_def
      resolve_def isCompatibleFloat_def f64_le_def iface_eq_def f64_eq_def Let_def)

text \<open>
  C1, amended. When \<open>v\<close> is compatible with the type of a singleton metric and resolves
  to a value equal to the stored one (the same value and not a floating-point NaN, or
  a floating-point zero against a zero of the same width), \<^verbatim>\<open>Set\<close> returns no error
  and leaves the metric and the world as they were: the stored value is unchanged and
  the log of calls of the update closure has no new entry. The same holds for
  \<^verbatim>\<open>SetInstance\<close> on the slot of an instance of the bound domain. When the stored
  value is a NaN, \<^verbatim>\<open>Set\<close> with that NaN is a change: a metric that has an update
  closure calls it once, on the NaN.
\<close>

theorem Set_same_value_is_noop:
  "(IsCompatible (md_t (sm_desc m)) v \<and> equal_values (resolve (md_t (sm_desc m)) v) (sm_val m)
      \<longrightarrow> Set m v w = (None, m, w)) \<and>
   (IsCompatible (md_t (im_desc im)) v \<and> HasInstance (im_indom im) inst \<and>
    im_vals im inst = Some iv \<and> equal_values (iv_val iv) (resolve (md_t (im_desc im)) v)
      \<longrightarrow> SetInstance im inst v w = Returns (None, im, w)) \<and>
   (IsCompatible (md_t (sm_desc m)) v \<and> resolve (md_t (sm_desc m)) v = sm_val m \<and>
    val_isNaN (sm_val m) \<and> sm_update m = Some f
      \<longrightarrow> hook_log (snd (snd (Set m v w)))
            = hook_log w @ [(sm_val m, fst (f (sm_val m) (buffer w)))])"
proof (intro conjI impI)
  assume "IsCompatible (md_t (sm_desc m)) v \<and>
    equal_values (resolve (md_t (sm_desc m)) v) (sm_val m)"
  then show "Set m v w = (None, m, w)"
    by (simp add: Set_cases iface_eq_equal_values)
next
  assume a: "IsCompatible (md_t (im_desc im)) v \<and> HasInstance (im_indom im) inst \<and>
    im_vals im inst = Some iv \<and> equal_values (iv_val iv) (resolve (md_t (im_desc im)) v)"
  then have "iface_eq (iv_val iv) (resolveFloat (md_t (im_desc im)) (resolveInt (md_t (im_desc im)) v))"
    by (simp add: resolve_def iface_eq_equal_values)
  with a show "SetInstance im inst v w = Returns (None, im, w)"
    by (simp add: SetInstance_def)
next
  assume "IsCompatible (md_t (sm_desc m)) v \<and> resolve (md_t (sm_desc m)) v = sm_val m \<and>
    val_isNaN (sm_val m) \<and> sm_update m = Some f"
  then show "hook_log (snd (snd (Set m v w)))
      = hook_log w @ [(sm_val m, fst (f (sm_val m) (buffer w)))]"
    by (simp add: Set_cases iface_eq_same call_update_def split: option.splits prod.splits)
qed

theorem Set_same_value_is_noop_witness:
  "Set (sample_counter\<lparr>sm_update := Some failing_update\<rparr>) (VInt 0) sample_world
     = (None, sample_counter\<lparr>sm_update := Some failing_update\<rparr>, sample_world) \<and>
   SetInstance sample_instance_metric ''a'' (VInt 0) sample_world
     = Returns (None, sample_instance_metric, sample_world) \<and>
   Set (nan_metric\<lparr>sm_val := VFloat64 0, sm_update := Some failing_update\<rparr>)
       (VFloat64 0x8000000000000000) sample_world
     = (None, nan_metric\<lparr>sm_val := VFloat64 0, sm_update := Some failing_update\<rparr>, sample_world) \<and>
   hook_log (snd (snd (Set (nan_metric\<lparr>sm_update := Some working_update\<rparr>) (VFloat64 quiet_NaN)
       sample_world)))
     = [(VFloat64 quiet_NaN, None)]"
  using Set_same_value_is_noop [of "sample_counter\<lparr>sm_update := Some failing_update\<rparr>" "VInt 0"
      sample_world sample_instance_metric "''a''"
      "\<lparr>iv_val = VInt64 0, iv_update = Some failing_update\<rparr>" working_update]
    Set_same_value_is_noop [of "nan_metric\<lparr>sm_val := VFloat64 0, sm_update := Some failing_update\<rparr>"
      "VFloat64 0x8000000000000000" sample_world sample_instance_metric "''a''"
      "\<lparr>iv_val = VInt64 0, iv_update = Some failing_update\<rparr>" failing_update]
    Set_same_value_is_noop [of "nan_metric\<lparr>sm_update := Some working_update\<rparr>" "VFloat64 quiet_NaN"
      sample_world sample_instance_metric "''a''"
      "\<lparr>iv_val = VInt64 0, iv_update = Some failing_update\<rparr>" working_update]
    quiet_NaN_isNaN
  by (simp add: sample_counter_def sample_desc_def sample_instance_metric_def sample_indom_def
      nan_metric_def sample_world_def working_update_def HasInstance_def resolve_def
      isCompatibleInt_def isCompatibleFloat_def f64_le_def equal_values_def)

subsection \<open>Errors of Set\<close>

text \<open>
  C2. \<^verbatim>\<open>Set\<close> returns an error exactly when the value fails the compatibility check
  of the metric's type or the update closure fails on the resolved value, that is, the
  call added one entry to the log of closure calls, for the resolved value and with an
  error. When \<^verbatim>\<open>Set\<close> returns an error the metric is as it was before the call, the
  stored value included.
\<close>

theorem Set_error_iff:
  assumes "Set m v w = (r, m', w')"
  shows "(r \<noteq> None \<longleftrightarrow>
            \<not> IsCompatible (md_t (sm_desc m)) v \<or>
            (\<exists>err. hook_log w' = hook_log w @ [(resolve (md_t (sm_desc m)) v, Some err)]))
         \<and> (r \<noteq> None \<longrightarrow> sm_val m' = sm_val m \<and> m' = m)"
  using assms
  by (auto simp: Set_cases call_update_def split: if_splits option.splits prod.splits)

theorem Set_error_iff_witness:
  "Set (sample_counter\<lparr>sm_update := Some failing_update\<rparr>) (VInt 5) sample_world
     = (Some (WriteError ''write failed''), sample_counter\<lparr>sm_update := Some failing_update\<rparr>,
        \<lparr>buffer = (), hook_log = [(VInt64 5, Some (WriteError ''write failed''))]\<rparr>) \<and>
   IsCompatible (md_t (sm_desc (sample_counter\<lparr>sm_update := Some failing_update\<rparr>))) (VInt 5) \<and>
   resolve Int64Type (VInt 5) = VInt64 5 \<and>
   sm_val (sample_counter\<lparr>sm_update := Some failing_update\<rparr>) = VInt64 0"
  using Set_error_iff [of "sample_counter\<lparr>sm_update := Some failing_update\<rparr>" "VInt 5" sample_world
      "Some (WriteError ''write failed'')" "sample_counter\<lparr>sm_update := Some failing_update\<rparr>"
      "\<lparr>buffer = (), hook_log = [(VInt64 5, Some (WriteError ''write failed''))]\<rparr>"]
  by (simp add: Set_def call_update_def sample_counter_def sample_desc_def sample_world_def
      failing_update_def resolve_def isCompatibleInt_def iface_eq_def)

subsection \<open>Resolution and compatibility\<close>

text \<open>
  C4, as the spec states it, fails: the generic integer \<open>2^31\<close> is not compatible
  with \<open>Int32Type\<close>, and resolving it gives the int32 of the same low 32 bits, which is.
\<close>

theorem resolve_compatible_counterexample:
  "IsCompatible Int32Type (VInt (2 ^ 31))
     \<noteq> IsCompatible Int32Type (resolve Int32Type (VInt (2 ^ 31)))"
  by (simp add: isCompatibleInt_def resolve_def)

text \<open>
  C4, amended. A value that is compatible with a type resolves to a value that is
  compatible with it; and a value of a fixed width (every kind but the generic int, uint
  and float64) is resolved to itself, so that its compatibility is the same before and
  after.
\<close>

theorem resolve_keeps_compatible:
  "(IsCompatible t v \<longrightarrow> IsCompatible t (resolve t v)) \<and>
   ((\<forall>x. v \<noteq> VInt x \<and> v \<noteq> VUint x \<and> v \<noteq> VFloat64 x) \<longrightarrow>
      resolve t v = v \<and> IsCompatible t (resolve t v) = IsCompatible t v)"
  by (cases v; cases t)
     (auto simp: resolve_def isCompatibleInt_def isCompatibleUint_def isCompatibleFloat_def)

theorem resolve_keeps_compatible_witness:
  "IsCompatible Int32Type (VInt 5) \<and> IsCompatible Int32Type (resolve Int32Type (VInt 5)) \<and>
   resolve Int32Type (VInt 5) = VInt32 5 \<and>
   resolve Uint32Type (VInt32 7) = VInt32 7 \<and>
   IsCompatible Uint32Type (resolve Uint32Type (VInt32 7)) = IsCompatible Uint32Type (VInt32 7)"
  using resolve_keeps_compatible [of Int32Type "VInt 5"]
    resolve_keeps_compatible [of Uint32Type "VInt32 7"]
  by (simp add: isCompatibleInt_def resolve_def)

subsection \<open>Unit encodings\<close>

text \<open>
  C7. The encoded value of a space unit differs from that of every time unit and from
  that of the count unit, and the encoded value of a time unit differs from that of the
  count unit.
\<close>

theorem PMAPI_families_disjoint:
  "SpaceUnit_PMAPI s \<noteq> TimeUnit_PMAPI t \<and>
   SpaceUnit_PMAPI s \<noteq> CountUnit_PMAPI c \<and>
   TimeUnit_PMAPI t \<noteq> CountUnit_PMAPI c \<and>
   PMAPI (Space s) \<noteq> PMAPI (Time t) \<and>
   PMAPI (Space s) \<noteq> PMAPI (Count c) \<and>
   PMAPI (Time t) \<noteq> PMAPI (Count c)"
  by (cases s; cases t; cases c)
     (simp_all add: SpaceUnit_PMAPI_def TimeUnit_PMAPI_def CountUnit_PMAPI_def)

subsection \<open>Descriptor construction\<close>

text \<open>
  C8. \<^verbatim>\<open>newPCPMetricDesc\<close> fails with \<open>EmptyName\<close> for the empty name, with
  \<open>NameTooLong\<close> for a name longer than \<^verbatim>\<open>StringLength\<close>, and with
  \<open>TooManyDescriptions\<close> when the name passes both checks and more than two
  descriptions are given; it fails in no other case. Otherwise it returns a descriptor
  whose id is the hash of the name at the width of 10 bits, a number below \<open>2^10\<close>.
\<close>

theorem newPCPMetricDesc_result:
  "(n = [] \<longrightarrow> newPCPMetricDesc ext n t s u desc = Inl EmptyName) \<and>
   (StringLength ext < length n \<longrightarrow> newPCPMetricDesc ext n t s u desc = Inl NameTooLong) \<and>
   (n \<noteq> [] \<and> length n \<le> StringLength ext \<and> 2 < length desc \<longrightarrow>
      newPCPMetricDesc ext n t s u desc = Inl TooManyDescriptions) \<and>
   (n \<noteq> [] \<and> length n \<le> StringLength ext \<and> length desc \<le> 2 \<longrightarrow>
      (\<exists>d. newPCPMetricDesc ext n t s u desc = Inr d \<and>
           ID d = hash ext n PCPMetricItemBitLength \<and>
           ID d = take_bit 10 (hash32 ext n) \<and>
           unat (ID d) < 2 ^ 10)) \<and>
   ((\<exists>e. newPCPMetricDesc ext n t s u desc = Inl e) \<longleftrightarrow>
      n = [] \<or> StringLength ext < length n \<or> 2 < length desc)"
  using hash_bound [of ext n 10]
  by (auto simp: newPCPMetricDesc_def ID_def PCPMetricItemBitLength_def Let_def hash_def)

theorem newPCPMetricDesc_result_witness:
  "newPCPMetricDesc sample_extern [] Int64Type CounterSemantics (Count OneUnit) [] = Inl EmptyName \<and>
   newPCPMetricDesc sample_extern (replicate 257 CHR ''x'') Int64Type CounterSemantics (Count OneUnit) []
     = Inl NameTooLong \<and>
   newPCPMetricDesc sample_extern ''requests'' Int64Type CounterSemantics (Count OneUnit)
     [''a'', ''b'', ''c''] = Inl TooManyDescriptions \<and>
   newPCPMetricDesc sample_extern ''requests'' Int64Type CounterSemantics (Count OneUnit) []
     = Inr sample_desc \<and>
   unat (ID sample_desc) < 2 ^ 10"
  using newPCPMetricDesc_result [of "[]" sample_extern Int64Type CounterSemantics "Count OneUnit" "[]"]
    newPCPMetricDesc_result [of "replicate 257 CHR ''x''" sample_extern Int64Type CounterSemantics
      "Count OneUnit" "[]"]
    newPCPMetricDesc_result [of "''requests''" sample_extern Int64Type CounterSemantics
      "Count OneUnit" "[''a'', ''b'', ''c'']"]
    newPCPMetricDesc_result [of "''requests''" sample_extern Int64Type CounterSemantics
      "Count OneUnit" "[]"]
  by (simp add: newPCPMetricDesc_def sample_extern_def sample_desc_def ID_def hash_def
      PCPMetricItemBitLength_def)

subsection \<open>The factory of instance domains\<close>

text \<open>
  C6. When a call of \<^verbatim>\<open>NewInstanceDomain\<close> has returned a pointer, a second call
  with a name of the same hash (the same name, for one) returns the same pointer, which
  is not nil, and leaves the map and the heap as they were: the domain keeps the help
  texts it has, and the help texts of the second call are dropped.
\<close>

theorem NewInstanceDomain_idempotent:
  assumes "NewInstanceDomain ext n s1 l1 g = Returns (p, g1)"
      and "getHash ext n' = getHash ext n"
  shows "NewInstanceDomain ext n' s2 l2 g1 = Returns (p, g1) \<and> (\<exists>a. p = Some a)"
  using assms
  by (auto simp: NewInstanceDomain_def map_index_def Let_def split: option.splits)

theorem NewInstanceDomain_idempotent_witness:
  "NewInstanceDomain sample_extern ''disk'' ''short'' ''long'' made_globals
     = Returns (Some 0, disk_globals) \<and>
   NewInstanceDomain sample_extern ''disk'' ''other'' ''texts'' disk_globals
     = Returns (Some 0, disk_globals)"
  using NewInstanceDomain_idempotent [of sample_extern "''disk''" "''short''" "''long''"
      made_globals "Some 0" disk_globals "''disk''" "''other''" "''texts''"]
  by (simp add: NewInstanceDomain_def map_index_def getHash_def sample_extern_def
      made_globals_def disk_globals_def)

subsection \<open>The map of instance domains before it is made\<close>

text \<open>
  C10. \<^verbatim>\<open>NewInstanceDomain\<close> panics exactly when the package-level map
  \<^verbatim>\<open>instanceDomains\<close> is nil, whatever the name: a nil map has no entry, so the call
  reaches the store into the map. In the state in which the package starts, where the
  map has only been declared, every call panics.
\<close>

theorem NewInstanceDomain_nil_map:
  "(NewInstanceDomain ext n s l g = Panic) = (instanceDomains g = None) \<and>
   NewInstanceDomain ext n s l initial_globals = Panic"
  by (auto simp: NewInstanceDomain_def map_index_def Let_def initial_globals_def
      split: option.splits)

theorem NewInstanceDomain_nil_map_witness:
  "NewInstanceDomain sample_extern ''disk'' ''short'' ''long'' initial_globals = Panic \<and>
   NewInstanceDomain sample_extern ''disk'' ''short'' ''long'' made_globals \<noteq> Panic"
  using NewInstanceDomain_nil_map [of sample_extern "''disk''" "''short''" "''long''" initial_globals]
    NewInstanceDomain_nil_map [of sample_extern "''disk''" "''short''" "''long''" made_globals]
  by (simp add: initial_globals_def made_globals_def)

subsection \<open>The value of a counter is an int64\<close>

lemma Int64_resolve: "IsCompatible Int64Type v \<Longrightarrow> \<exists>x. resolve Int64Type v = VInt64 x"
  by (cases v) (auto simp: resolve_def isCompatibleUint_def isCompatibleFloat_def split: if_splits)

lemma Set_counter_inv:
  assumes "Set m v w = (e, m', w')" and "counter_inv m"
  shows "counter_inv m'"
proof (cases "IsCompatible Int64Type v")
  case True
  then obtain y where "resolve Int64Type v = VInt64 y"
    using Int64_resolve by blast
  with assms show ?thesis
    by (auto simp: Set_cases counter_inv_def split: if_splits option.splits)
next
  case False
  with assms show ?thesis
    by (auto simp: Set_cases counter_inv_def split: if_splits option.splits)
qed

lemma Inc_is_Set: "Inc c x w = Returns (e, c', w') \<Longrightarrow> \<exists>v. Set c v w = (e, c', w')"
  by (auto simp: Inc_def Counter_Set_def split: outcome.splits)

lemma MustSet_is_Set: "MustSet m v w = Returns (m', w') \<Longrightarrow> \<exists>e. Set m v w = (e, m', w')"
  by (auto simp: MustSet_def split: prod.splits option.splits)

lemma MustInc_is_Set: "MustInc c x w = Returns (c', w') \<Longrightarrow> \<exists>v e. Set c v w = (e, c', w')"
  by (auto simp: MustInc_def split: outcome.splits option.splits) (blast dest: Inc_is_Set)

lemma MustDec_is_Set: "MustDec c x w = Returns (c', w') \<Longrightarrow> \<exists>v e. Set c v w = (e, c', w')"
  by (auto simp: MustDec_def Dec_def split: outcome.splits option.splits) (blast dest: Inc_is_Set)

lemma counter_state_inv: "counter_state ext c \<Longrightarrow> counter_inv c"
proof (induction rule: counter_state.induct)
  case (cs_new v n desc c)
  then show ?case
    by (auto simp: NewPCPCounter_def NewPCPSingletonMetric_def newPCPMetricDesc_def resolve_def
        Let_def counter_inv_def split: if_splits sum.splits)
next
  case (cs_hook c f)
  then show ?case by (simp add: counter_inv_def)
next
  case (cs_Set c x w e c' w')
  then show ?case
    unfolding Counter_Set_def by (blast intro: Set_counter_inv)
next
  case (cs_metric_Set c v w e c' w')
  then show ?case by (blast intro: Set_counter_inv)
next
  case (cs_Inc c x w e c' w')
  then show ?case by (blast intro: Set_counter_inv dest: Inc_is_Set)
next
  case (cs_Dec c x w e c' w')
  then show ?case
    unfolding Dec_def by (blast intro: Set_counter_inv dest: Inc_is_Set)
next
  case (cs_Up c w c' w')
  then show ?case
    unfolding Up_def by (blast intro: Set_counter_inv dest: MustInc_is_Set)
next
  case (cs_Down c w c' w')
  then show ?case
    unfolding Down_def by (blast intro: Set_counter_inv dest: MustDec_is_Set)
next
  case (cs_MustSet c v w c' w')
  then show ?case by (blast intro: Set_counter_inv dest: MustSet_is_Set)
next
  case (cs_MustInc c x w c' w')
  then show ?case by (blast intro: Set_counter_inv dest: MustInc_is_Set)
next
  case (cs_MustDec c x w c' w')
  then show ?case by (blast intro: Set_counter_inv dest: MustDec_is_Set)
qed

lemma sample_up:
  "Up sample_counter sample_world = Returns (sample_counter\<lparr>sm_val := VInt64 1\<rparr>, sample_world)"
  by (simp add: Up_def MustInc_def Inc_def Counter_Val_def Val_def Counter_Set_def Set_def
      sample_counter_def sample_desc_def iface_eq_def)

text \<open>
  C9. In every state that a counter reaches (returned by \<^verbatim>\<open>NewPCPCounter\<close>, then
  any number of calls of \<^verbatim>\<open>Set\<close>, \<^verbatim>\<open>Inc\<close>, \<^verbatim>\<open>Dec\<close>, \<^verbatim>\<open>Up\<close>,
  \<^verbatim>\<open>Down\<close> and their panicking forms that return, with an error or without, and
  any update closure installed) the stored value is an int64, and \<^verbatim>\<open>Val\<close> returns it: the type
  assertion does not panic. The reason is that every value that passes the
  compatibility check of \<open>Int64Type\<close> resolves to an int64.
\<close>

theorem counter_val_int64:
  "(counter_state ext c \<longrightarrow> (\<exists>x. sm_val c = VInt64 x \<and> Counter_Val c = Returns x)) \<and>
   (IsCompatible Int64Type v \<longrightarrow> (\<exists>x. resolve Int64Type v = VInt64 x))"
  using counter_state_inv [of ext c] Int64_resolve [of v]
  by (auto simp: Counter_Val_def Val_def counter_inv_def)

theorem counter_val_int64_witness:
  "counter_state sample_extern (sample_counter\<lparr>sm_val := VInt64 1\<rparr>) \<and>
   Counter_Val (sample_counter\<lparr>sm_val := VInt64 1\<rparr>) = Returns 1 \<and>
   IsCompatible Int64Type (VInt 5) \<and> resolve Int64Type (VInt 5) = VInt64 5"
proof -
  have r: "counter_state sample_extern (sample_counter\<lparr>sm_val := VInt64 1\<rparr>)"
    using cs_Up [OF cs_new [OF sample_counter_new] sample_up] .
  show ?thesis
    using r counter_val_int64 [of sample_extern "sample_counter\<lparr>sm_val := VInt64 1\<rparr>" "VInt 5"]
    by (simp add: sample_counter_def isCompatibleInt_def resolve_def)
qed

subsection \<open>Construction of an instance metric\<close>

lemma initInstances_missing:
  assumes "\<exists>n\<in>set ns. map_of vals n = None"
      and "\<forall>n\<in>set ns. \<forall>v. map_of vals n = Some v \<longrightarrow> IsCompatible t v"
  shows "initInstances vals t ns mv = Inl MissingInstanceValue"
  using assms
proof (induction ns arbitrary: mv)
  case Nil
  then show ?case by simp
next
  case (Cons n ns)
  show ?case
  proof (cases "map_of vals n")
    case None
    then show ?thesis by simp
  next
    case (Some v)
    with Cons.prems have "\<exists>n\<in>set ns. map_of vals n = None" and "IsCompatible t v"
      by auto
    with Cons Some show ?thesis by simp
  qed
qed

lemma initInstances_ok:
  assumes "\<forall>n\<in>set ns. \<exists>v. map_of vals n = Some v \<and> IsCompatible t v"
  shows "\<exists>mv'. initInstances vals t ns mv = Inr mv' \<and>
           (\<forall>n. mv' n = (if n \<in> set ns
                          then map_option (\<lambda>v. newinstanceValue (resolve t v)) (map_of vals n)
                          else mv n))"
  using assms
proof (induction ns arbitrary: mv)
  case Nil
  then show ?case by simp
next
  case (Cons n ns)
  then obtain v where v: "map_of vals n = Some v" "IsCompatible t v"
    by auto
  from Cons.prems have "\<forall>n\<in>set ns. \<exists>v. map_of vals n = Some v \<and> IsCompatible t v"
    by simp
  from Cons.IH [OF this, of "mv(n \<mapsto> newinstanceValue (resolve t v))"]
  obtain mv' where mv': "initInstances vals t ns (mv(n \<mapsto> newinstanceValue (resolve t v))) = Inr mv'"
    "\<And>k. mv' k = (if k \<in> set ns
                   then map_option (\<lambda>v. newinstanceValue (resolve t v)) (map_of vals k)
                   else (mv(n \<mapsto> newinstanceValue (resolve t v))) k)"
    by blast
  have "initInstances vals t (n # ns) mv = Inr mv'"
    using v mv'(1) by simp
  moreover have "mv' k = (if k \<in> set (n # ns)
                   then map_option (\<lambda>v. newinstanceValue (resolve t v)) (map_of vals k)
                   else mv k)" for k
    using mv'(2) [of k] v by simp
  ultimately show ?case by blast
qed

lemma length_eq_of_same_keys:
  assumes "distinct (map fst xs)" and "distinct (map fst ys)" and "fst ` set xs = fst ` set ys"
  shows "length xs = length ys"
proof -
  have "length xs = card (fst ` set xs)"
    using assms(1) distinct_card [of "map fst xs"] by simp
  also have "\<dots> = card (fst ` set ys)"
    using assms(3) by simp
  also have "\<dots> = length ys"
    using assms(2) distinct_card [of "map fst ys"] by simp
  finally show ?thesis .
qed

lemma NewPCPInstanceMetric_missing:
  assumes "length vals = InstanceCount indom"
      and "newPCPMetricDesc ext n t s u desc = Inr d"
      and "\<exists>i\<in>fst ` set (indom_instances indom). map_of vals i = None"
      and "\<forall>i\<in>fst ` set (indom_instances indom). \<forall>v. map_of vals i = Some v \<longrightarrow> IsCompatible t v"
  shows "(NewPCPInstanceMetric ext vals n indom t s u desc :: error + 'b PCPInstanceMetric)
           = Inl MissingInstanceValue"
proof -
  have "initInstances vals t (map fst (indom_instances indom)) mv = Inl MissingInstanceValue"
    for mv :: "string \<rightharpoonup> 'b instanceValue"
    using assms(3,4) by (intro initInstances_missing) auto
  with assms(1,2) show ?thesis
    by (simp add: NewPCPInstanceMetric_def)
qed

lemma NewPCPInstanceMetric_ok:
  assumes "distinct (map fst vals)" and "distinct (map fst (indom_instances indom))"
      and "fst ` set vals = fst ` set (indom_instances indom)"
      and "\<forall>(i, v)\<in>set vals. IsCompatible t v"
      and "newPCPMetricDesc ext n t s u desc = Inr d"
  shows "\<exists>m :: 'b PCPInstanceMetric. NewPCPInstanceMetric ext vals n indom t s u desc = Inr m \<and>
           im_desc m = d \<and> im_indom m = indom \<and>
           (\<forall>(i, v)\<in>set vals. ValInstance m i = Returns (Inr (resolve t v)))"
proof -
  have len: "length vals = InstanceCount indom"
    unfolding InstanceCount_def using assms(1-3) by (intro length_eq_of_same_keys)
  have look: "map_of vals i = Some v" if "(i, v) \<in> set vals" for i v
    using assms(1) that by simp
  have "\<forall>i\<in>set (map fst (indom_instances indom)). \<exists>v. map_of vals i = Some v \<and> IsCompatible t v"
  proof
    fix i assume "i \<in> set (map fst (indom_instances indom))"
    with assms(3) have "i \<in> fst ` set vals" by simp
    then obtain v where "(i, v) \<in> set vals" by auto
    with assms(4) look show "\<exists>v. map_of vals i = Some v \<and> IsCompatible t v" by blast
  qed
  from initInstances_ok [OF this, of Map.empty]
  obtain mv' :: "string \<rightharpoonup> 'b instanceValue" where mv':
    "initInstances vals t (map fst (indom_instances indom)) Map.empty = Inr mv'"
    "\<And>i. mv' i = (if i \<in> set (map fst (indom_instances indom))
                   then map_option (\<lambda>v. newinstanceValue (resolve t v)) (map_of vals i)
                   else None)"
    by blast
  let ?m = "\<lparr>im_desc = d, im_indom = indom, im_vals = mv'\<rparr>"
  have new: "NewPCPInstanceMetric ext vals n indom t s u desc = Inr ?m"
    using assms(5) len mv'(1) by (simp add: NewPCPInstanceMetric_def)
  have "ValInstance ?m i = Returns (Inr (resolve t v))" if "(i, v) \<in> set vals" for i v
  proof -
    have mem: "i \<in> fst ` set (indom_instances indom)"
      using assms(3) that by (metis fst_conv image_eqI)
    then have "HasInstance indom i"
      by (simp add: HasInstance_def map_of_eq_None_iff)
    moreover have "mv' i = Some (newinstanceValue (resolve t v))"
      using mv'(2) [of i] look [OF that] mem by simp
    ultimately show ?thesis
      by (simp add: ValInstance_def newinstanceValue_def)
  qed
  with new show ?thesis by auto
qed

text \<open>
  C5, as the spec states it, fails: \<^verbatim>\<open>NewPCPInstanceMetric\<close> compares the number of
  supplied values with the number of instances of the domain before it looks for the
  value of any instance. For the domain with the instances \<^verbatim>\<open>a\<close> and \<^verbatim>\<open>b\<close>, the
  values that hold one for \<^verbatim>\<open>a\<close> and none for \<^verbatim>\<open>b\<close> fail with
  \<open>InstanceCountMismatch\<close>, not with \<open>MissingInstanceValue\<close>.
\<close>

theorem NewPCPInstanceMetric_counterexample:
  "(NewPCPInstanceMetric sample_extern [(''a'', VInt 5)] ''requests'' sample_indom Int32Type
      CounterSemantics (Count OneUnit) [] :: error + unit PCPInstanceMetric) = Inl InstanceCountMismatch \<and>
   (NewPCPInstanceMetric sample_extern [(''a'', VInt 5)] ''requests'' sample_indom Int32Type
      CounterSemantics (Count OneUnit) [] :: error + unit PCPInstanceMetric) \<noteq> Inl MissingInstanceValue"
  by (simp add: NewPCPInstanceMetric_def InstanceCount_def sample_indom_def)

text \<open>
  C5, amended. \<^verbatim>\<open>NewPCPInstanceMetric\<close> fails with \<open>InstanceCountMismatch\<close> when the
  number of supplied values differs from the number of instances of the domain. It
  fails with \<open>MissingInstanceValue\<close> when the two numbers agree, the descriptor can be
  built, an instance of the domain has no value, and the values supplied for instances
  of the domain are compatible with the type. Called with values for exactly the
  instances of the domain, each compatible with the type, and a name and descriptions
  from which the descriptor can be built, it returns a metric bound to the domain, and
  \<^verbatim>\<open>ValInstance\<close> returns for each instance the supplied value resolved to the type.
\<close>

theorem NewPCPInstanceMetric_result:
  "(length vals \<noteq> InstanceCount indom \<longrightarrow>
      (NewPCPInstanceMetric ext vals n indom t s u desc :: error + 'b PCPInstanceMetric)
        = Inl InstanceCountMismatch) \<and>
   (length vals = InstanceCount indom \<and> newPCPMetricDesc ext n t s u desc = Inr d \<and>
    (\<exists>i\<in>fst ` set (indom_instances indom). map_of vals i = None) \<and>
    (\<forall>i\<in>fst ` set (indom_instances indom). \<forall>v. map_of vals i = Some v \<longrightarrow> IsCompatible t v) \<longrightarrow>
      (NewPCPInstanceMetric ext vals n indom t s u desc :: error + 'b PCPInstanceMetric)
        = Inl MissingInstanceValue) \<and>
   (distinct (map fst vals) \<and> distinct (map fst (indom_instances indom)) \<and>
    fst ` set vals = fst ` set (indom_instances indom) \<and>
    (\<forall>(i, v)\<in>set vals. IsCompatible t v) \<and>
    newPCPMetricDesc ext n t s u desc = Inr d \<longrightarrow>
      (\<exists>m :: 'b PCPInstanceMetric.
           NewPCPInstanceMetric ext vals n indom t s u desc = Inr m \<and>
           im_desc m = d \<and> im_indom m = indom \<and>
           (\<forall>(i, v)\<in>set vals. ValInstance m i = Returns (Inr (resolve t v)))))"
proof (intro conjI impI)
  assume "length vals \<noteq> InstanceCount indom"
  then show "(NewPCPInstanceMetric ext vals n indom t s u desc :: error + 'b PCPInstanceMetric)
      = Inl InstanceCountMismatch"
    by (simp add: NewPCPInstanceMetric_def)
qed (blast intro: NewPCPInstanceMetric_missing, blast intro: NewPCPInstanceMetric_ok)

theorem NewPCPInstanceMetric_result_witness:
  "NewPCPInstanceMetric sample_extern [(''a'', VInt 5), (''c'', VInt 6)] ''requests'' sample_indom
     Int32Type CounterSemantics (Count OneUnit) [] = (Inl MissingInstanceValue :: error + unit PCPInstanceMetric) \<and>
   (\<exists>m :: unit PCPInstanceMetric.
      NewPCPInstanceMetric sample_extern [(''a'', VInt 5), (''b'', VInt 6)] ''requests'' sample_indom
        Int32Type CounterSemantics (Count OneUnit) [] = Inr m \<and>
      ValInstance m ''a'' = Returns (Inr (VInt32 5)) \<and>
      ValInstance m ''b'' = Returns (Inr (VInt32 6)))"
proof -
  have d: "newPCPMetricDesc sample_extern ''requests'' Int32Type CounterSemantics (Count OneUnit) []
      = Inr (sample_desc\<lparr>md_t := Int32Type\<rparr>)"
    by (simp add: newPCPMetricDesc_def sample_extern_def sample_desc_def hash_def
        PCPMetricItemBitLength_def)
  have missing: "NewPCPInstanceMetric sample_extern [(''a'', VInt 5), (''c'', VInt 6)] ''requests''
      sample_indom Int32Type CounterSemantics (Count OneUnit) []
      = (Inl MissingInstanceValue :: error + unit PCPInstanceMetric)"
    using d NewPCPInstanceMetric_result [where 'b = unit, of "[(''a'', VInt 5), (''c'', VInt 6)]" sample_indom
        sample_extern "''requests''" Int32Type CounterSemantics "Count OneUnit" "[]"
        "sample_desc\<lparr>md_t := Int32Type\<rparr>"]
    by (simp add: InstanceCount_def sample_indom_def isCompatibleInt_def)
  have "\<exists>m :: unit PCPInstanceMetric.
      NewPCPInstanceMetric sample_extern [(''a'', VInt 5), (''b'', VInt 6)] ''requests'' sample_indom
        Int32Type CounterSemantics (Count OneUnit) [] = Inr m \<and>
      im_desc m = sample_desc\<lparr>md_t := Int32Type\<rparr> \<and> im_indom m = sample_indom \<and>
      ValInstance m ''a'' = Returns (Inr (resolve Int32Type (VInt 5))) \<and>
      ValInstance m ''b'' = Returns (Inr (resolve Int32Type (VInt 6)))"
    using d NewPCPInstanceMetric_result [where 'b = unit, of "[(''a'', VInt 5), (''b'', VInt 6)]" sample_indom
        sample_extern "''requests''" Int32Type CounterSemantics "Count OneUnit" "[]"
        "sample_desc\<lparr>md_t := Int32Type\<rparr>"]
    by (simp add: sample_indom_def isCompatibleInt_def)
  then obtain m :: "unit PCPInstanceMetric" where
    "NewPCPInstanceMetric sample_extern [(''a'', VInt 5), (''b'', VInt 6)] ''requests'' sample_indom
        Int32Type CounterSemantics (Count OneUnit) [] = Inr m"
    "ValInstance m ''a'' = Returns (Inr (resolve Int32Type (VInt 5)))"
    "ValInstance m ''b'' = Returns (Inr (resolve Int32Type (VInt 6)))"
    by blast
  then have "NewPCPInstanceMetric sample_extern [(''a'', VInt 5), (''b'', VInt 6)] ''requests'' sample_indom
        Int32Type CounterSemantics (Count OneUnit) [] = Inr m \<and>
      ValInstance m ''a'' = Returns (Inr (VInt32 5)) \<and>
      ValInstance m ''b'' = Returns (Inr (VInt32 6))"
    by (simp add: resolve_def)
  with missing show ?thesis by blast
qed

subsection \<open>Concurrent calls of Up\<close>

lemma Up_two_steps:
  "Up c w =
     (case Up_step (c, w) AtVal of
        Panic \<Rightarrow> Panic
      | Returns (s, pc) \<Rightarrow>
          (case Up_step s pc of
             Panic \<Rightarrow> Panic
           | Returns (s', pc') \<Rightarrow> Returns s'))"
  by (auto simp: Up_def MustInc_def Inc_def split: outcome.splits option.splits prod.splits)

lemma Up_step_sample_AtVal:
  "Up_step (sample_counter\<lparr>sm_val := VInt64 x\<rparr>, sample_world) AtVal
     = Returns ((sample_counter\<lparr>sm_val := VInt64 x\<rparr>, sample_world), AtSet x)"
  by (simp add: Counter_Val_def Val_def)

lemma Up_step_sample_AtSet:
  "Up_step (sample_counter\<lparr>sm_val := VInt64 x\<rparr>, sample_world) (AtSet y)
     = Returns ((sample_counter\<lparr>sm_val := VInt64 (y + 1)\<rparr>, sample_world), Finished)"
  by (cases "y + 1 = x")
     (simp_all add: Counter_Set_def Set_def sample_counter_def sample_desc_def iface_eq_def)

text \<open>
  C3. A counter is created with the value 0 and ten goroutines call \<^verbatim>\<open>Up\<close> once
  each. In the schedule in which every goroutine runs its \<^verbatim>\<open>Val\<close> before any
  runs its \<^verbatim>\<open>Set\<close>, all ten read 0 and all ten set 1: every call returns, and
  \<^verbatim>\<open>Val\<close> is 1 afterwards, not 10. Nine of the ten increments are lost. In the
  schedule in which the goroutines run one after the other the value is 10.
\<close>

theorem Up_lost_updates:
  "NewPCPCounter sample_extern 0 ''requests'' [] = Inr sample_counter \<and>
   run_Ups [0, 1, 2, 3, 4, 5, 6, 7, 8, 9, 0, 1, 2, 3, 4, 5, 6, 7, 8, 9]
     ((sample_counter, sample_world),
      [AtVal, AtVal, AtVal, AtVal, AtVal, AtVal, AtVal, AtVal, AtVal, AtVal])
     = Returns ((sample_counter\<lparr>sm_val := VInt64 1\<rparr>, sample_world),
         [Finished, Finished, Finished, Finished, Finished, Finished, Finished, Finished, Finished,
          Finished]) \<and>
   Counter_Val (sample_counter\<lparr>sm_val := VInt64 1\<rparr>) = Returns 1 \<and>
   run_Ups [0, 0, 1, 1, 2, 2, 3, 3, 4, 4, 5, 5, 6, 6, 7, 7, 8, 8, 9, 9]
     ((sample_counter, sample_world),
      [AtVal, AtVal, AtVal, AtVal, AtVal, AtVal, AtVal, AtVal, AtVal, AtVal])
     = Returns ((sample_counter\<lparr>sm_val := VInt64 10\<rparr>, sample_world),
         [Finished, Finished, Finished, Finished, Finished, Finished, Finished, Finished, Finished,
          Finished])"
proof -
  have c0: "sample_counter = sample_counter\<lparr>sm_val := VInt64 0\<rparr>"
    by (simp add: sample_counter_def)
  have one_by_one: "run_Ups [0, 0, 1, 1, 2, 2, 3, 3, 4, 4, 5, 5, 6, 6, 7, 7, 8, 8, 9, 9]
     ((sample_counter\<lparr>sm_val := VInt64 0\<rparr>, sample_world),
      [AtVal, AtVal, AtVal, AtVal, AtVal, AtVal, AtVal, AtVal, AtVal, AtVal])
     = Returns ((sample_counter\<lparr>sm_val := VInt64 10\<rparr>, sample_world),
         [Finished, Finished, Finished, Finished, Finished, Finished, Finished, Finished, Finished,
          Finished])"
    by (simp add: Up_step_sample_AtVal Up_step_sample_AtSet del: Up_step.simps)
  have "run_Ups [0, 1, 2, 3, 4, 5, 6, 7, 8, 9, 0, 1, 2, 3, 4, 5, 6, 7, 8, 9]
     ((sample_counter\<lparr>sm_val := VInt64 0\<rparr>, sample_world),
      [AtVal, AtVal, AtVal, AtVal, AtVal, AtVal, AtVal, AtVal, AtVal, AtVal])
     = Returns ((sample_counter\<lparr>sm_val := VInt64 1\<rparr>, sample_world),
         [Finished, Finished, Finished, Finished, Finished, Finished, Finished, Finished, Finished,
          Finished])"
    by (simp add: Up_step_sample_AtVal Up_step_sample_AtSet del: Up_step.simps)
  then show ?thesis
    using c0 one_by_one sample_counter_new by (simp add: Counter_Val_def Val_def)
qed

end
